theory Spec2Isabelle
  imports Complex_Main
begin

section \<open>JavaScript values\<close>

text \<open>
  The synchronisation engine is JavaScript: the payloads it translates are whatever
  \<^verbatim>\<open>JSON.parse\<close> or \<^verbatim>\<open>response.json()\<close> produced, and a missing property reads as
  \<^verbatim>\<open>undefined\<close>. A payload is therefore a value of \<open>jsval\<close>, not a typed record, and every
  operator the translators apply is modelled on all of \<open>jsval\<close>.

  Numbers are exact rationals extended with \<^verbatim>\<open>NaN\<close> and the two infinities. Rounding to
  binary64, overflow to infinity and the sign of zero are not modelled. Strings are lists of
  \<open>char\<close>, one \<open>char\<close> per code unit (code units below 256).
\<close>

datatype jsnum = NaN | NegInf | Fin rat | PosInf

datatype jsval =
    Undefined
  | Null
  | Bool bool
  | Num jsnum
  | Str string
  | Arr "jsval list"
  | Obj "(string \<times> jsval) list"

datatype error = TypeError | CastError | SyntaxError

text \<open>Sequencing of computations that may throw: the first exception wins.\<close>

definition andThen :: "error + 'a \<Rightarrow> ('a \<Rightarrow> error + 'b) \<Rightarrow> error + 'b" where
  "andThen m f = (case m of Inl e \<Rightarrow> Inl e | Inr v \<Rightarrow> f v)"

fun mapM :: "('a \<Rightarrow> error + 'b) \<Rightarrow> 'a list \<Rightarrow> error + 'b list" where
  "mapM f [] = Inr []"
| "mapM f (x # xs) = andThen (f x) (\<lambda>y. andThen (mapM f xs) (\<lambda>ys. Inr (y # ys)))"

subsection \<open>Numbers\<close>

text \<open>\<open>jsnum_gt a b\<close> is \<^verbatim>\<open>a > b\<close> on numbers: false as soon as one side is \<^verbatim>\<open>NaN\<close>.\<close>

fun jsnum_gt :: "jsnum \<Rightarrow> jsnum \<Rightarrow> bool" where
  "jsnum_gt NaN b = False"
| "jsnum_gt a NaN = False"
| "jsnum_gt NegInf b = False"
| "jsnum_gt a PosInf = False"
| "jsnum_gt PosInf b = True"
| "jsnum_gt (Fin x) NegInf = True"
| "jsnum_gt (Fin x) (Fin y) = (y < x)"

fun jsnum_neg :: "jsnum \<Rightarrow> jsnum" where
  "jsnum_neg NaN = NaN"
| "jsnum_neg NegInf = PosInf"
| "jsnum_neg PosInf = NegInf"
| "jsnum_neg (Fin x) = Fin (- x)"

definition jsnum_sign :: "jsnum \<Rightarrow> int" where
  "jsnum_sign a = (if jsnum_gt a (Fin 0) then 1 else if jsnum_gt (Fin 0) a then - 1 else 0)"

text \<open>\<^verbatim>\<open>a * b\<close> on numbers: \<^verbatim>\<open>NaN\<close> is absorbing and infinity times zero is \<^verbatim>\<open>NaN\<close>.\<close>

fun jsnum_mul :: "jsnum \<Rightarrow> jsnum \<Rightarrow> jsnum" where
  "jsnum_mul NaN b = NaN"
| "jsnum_mul a NaN = NaN"
| "jsnum_mul (Fin x) (Fin y) = Fin (x * y)"
| "jsnum_mul a b =
     (let s = jsnum_sign a * jsnum_sign b
      in if s = 0 then NaN else if 0 < s then PosInf else NegInf)"

subsection \<open>Characters, digits and white space\<close>

definition is_ws :: "char \<Rightarrow> bool" where
  "is_ws c = ((of_char c :: nat) \<in> {9, 10, 11, 12, 13, 32, 160})"

definition trimStart :: "string \<Rightarrow> string" where
  "trimStart s = dropWhile is_ws s"

definition trim :: "string \<Rightarrow> string" where
  "trim s = rev (dropWhile is_ws (rev (dropWhile is_ws s)))"

definition digit_of :: "char \<Rightarrow> nat option" where
  "digit_of c =
     (let n = (of_char c :: nat)
      in if 48 \<le> n \<and> n \<le> 57 then Some (n - 48)
         else if 97 \<le> n \<and> n \<le> 122 then Some (n - 87)
         else if 65 \<le> n \<and> n \<le> 90 then Some (n - 55)
         else None)"

definition in_radix :: "nat \<Rightarrow> char \<Rightarrow> bool" where
  "in_radix r c = (case digit_of c of None \<Rightarrow> False | Some d \<Rightarrow> d < r)"

definition radix_value :: "nat \<Rightarrow> string \<Rightarrow> nat" where
  "radix_value r ds =
     foldl (\<lambda>acc c. r * acc + (case digit_of c of None \<Rightarrow> 0 | Some d \<Rightarrow> d)) 0 ds"

definition digit_char :: "nat \<Rightarrow> char" where
  "digit_char d = ''0123456789'' ! (d mod 10)"

fun string_of_nat :: "nat \<Rightarrow> string" where
  "string_of_nat n =
     (if n < 10 then [digit_char n] else string_of_nat (n div 10) @ [digit_char (n mod 10)])"

declare string_of_nat.simps [simp del]

definition string_of_int :: "int \<Rightarrow> string" where
  "string_of_int i =
     (if i < 0 then CHR ''-'' # string_of_nat (nat (- i)) else string_of_nat (nat i))"

fun fraction_digits :: "nat \<Rightarrow> rat \<Rightarrow> string" where
  "fraction_digits 0 r = []"
| "fraction_digits (Suc n) r =
     (if r = 0 then []
      else digit_char (nat \<lfloor>r * 10\<rfloor>) # fraction_digits n (r * 10 - of_int \<lfloor>r * 10\<rfloor>))"

text \<open>
  \<^verbatim>\<open>Number.prototype.toString\<close>. Exact on integers of magnitude below \<open>10\<^sup>2\<^sup>1\<close> (every
  platform identifier is one); a non-integer is printed with its decimal expansion, cut after
  twenty fraction digits, where JavaScript prints the shortest digits that read back as the same
  binary64 and switches to exponent notation outside \<open>[10\<^sup>-\<^sup>6, 10\<^sup>2\<^sup>1)\<close>.
\<close>

fun number_to_string :: "jsnum \<Rightarrow> string" where
  "number_to_string NaN = ''NaN''"
| "number_to_string PosInf = ''Infinity''"
| "number_to_string NegInf = ''-Infinity''"
| "number_to_string (Fin x) =
     (if x = of_int \<lfloor>x\<rfloor> then string_of_int \<lfloor>x\<rfloor>
      else (if x < 0 then ''-'' else '''') @ string_of_int \<lfloor>\<bar>x\<bar>\<rfloor> @ ''.'' @
           fraction_digits 20 (\<bar>x\<bar> - of_int \<lfloor>\<bar>x\<bar>\<rfloor>))"

subsection \<open>Numeric literals in strings\<close>

definition pow10 :: "int \<Rightarrow> rat" where
  "pow10 e = (if 0 \<le> e then 10 ^ nat e else 1 / 10 ^ nat (- e))"

text \<open>The optional \<^verbatim>\<open>ExponentPart\<close>: consumed only when at least one digit follows.\<close>

definition parse_exponent :: "string \<Rightarrow> int \<times> string" where
  "parse_exponent s =
     (case s of
        [] \<Rightarrow> (0, s)
      | c # t \<Rightarrow>
          if c = CHR ''e'' \<or> c = CHR ''E'' then
            (let neg = (case t of [] \<Rightarrow> False | d # u \<Rightarrow> d = CHR ''-'');
                 t' = (case t of [] \<Rightarrow> t | d # u \<Rightarrow> if d = CHR ''+'' \<or> d = CHR ''-'' then u else t);
                 ds = takeWhile (in_radix 10) t'
             in if ds = [] then (0, s)
                else ((if neg then - 1 else 1) * int (radix_value 10 ds),
                      dropWhile (in_radix 10) t'))
          else (0, s))"

text \<open>
  The longest prefix that is a \<^verbatim>\<open>StrUnsignedDecimalLiteral\<close>, with its value and the rest
  of the string; \<open>None\<close> when no prefix is one.
\<close>

definition parse_unsigned :: "string \<Rightarrow> (jsnum \<times> string) option" where
  "parse_unsigned s =
     (if take 8 s = ''Infinity'' then Some (PosInf, drop 8 s)
      else
        (let ip = takeWhile (in_radix 10) s;
             r1 = dropWhile (in_radix 10) s;
             dot = (case r1 of [] \<Rightarrow> False | c # t \<Rightarrow> c = CHR ''.'');
             fp = (if dot then takeWhile (in_radix 10) (tl r1) else []);
             r2 = (if dot \<and> (ip \<noteq> [] \<or> fp \<noteq> []) then dropWhile (in_radix 10) (tl r1) else r1)
         in if ip = [] \<and> fp = [] then None
            else
              (let mant = of_nat (radix_value 10 (ip @ fp)) / 10 ^ length fp;
                   ex = parse_exponent r2
               in Some (Fin (mant * pow10 (fst ex)), snd ex))))"

definition parse_decimal :: "string \<Rightarrow> (jsnum \<times> string) option" where
  "parse_decimal s =
     (case s of
        [] \<Rightarrow> None
      | c # t \<Rightarrow>
          if c = CHR ''+'' then parse_unsigned t
          else if c = CHR ''-'' then map_option (\<lambda>(v, r). (jsnum_neg v, r)) (parse_unsigned t)
          else parse_unsigned s)"

text \<open>\<^verbatim>\<open>parseFloat\<close> on a string: leading white space is skipped, trailing text is ignored.\<close>

definition parseFloat_string :: "string \<Rightarrow> jsnum" where
  "parseFloat_string s =
     (case parse_decimal (trimStart s) of None \<Rightarrow> NaN | Some (v, r) \<Rightarrow> v)"

text \<open>\<^verbatim>\<open>parseInt\<close> on a string, no radix given: base 16 after \<^verbatim>\<open>0x\<close>, base 10 otherwise.\<close>

definition parseInt_string :: "string \<Rightarrow> jsnum" where
  "parseInt_string s =
     (let t = trimStart s;
          neg = (case t of [] \<Rightarrow> False | c # u \<Rightarrow> c = CHR ''-'');
          u = (case t of [] \<Rightarrow> t | c # u \<Rightarrow> if c = CHR ''+'' \<or> c = CHR ''-'' then u else t);
          hex = (take 2 u = ''0x'' \<or> take 2 u = ''0X'');
          r = (if hex then 16 else 10);
          w = (if hex then drop 2 u else u);
          z = takeWhile (in_radix r) w
      in if z = [] then NaN
         else Fin ((if neg then - 1 else 1) * of_nat (radix_value r z)))"

definition radix_literal :: "nat \<Rightarrow> string \<Rightarrow> jsnum" where
  "radix_literal r ds =
     (if ds \<noteq> [] \<and> list_all (in_radix r) ds then Fin (of_nat (radix_value r ds)) else NaN)"

text \<open>
  \<^verbatim>\<open>Number(s)\<close> on a string: the whole trimmed string has to be a numeric literal, and the
  empty string is zero.
\<close>

definition string_to_number :: "string \<Rightarrow> jsnum" where
  "string_to_number s =
     (let t = trim s
      in if t = [] then Fin 0
         else if take 2 t = ''0x'' \<or> take 2 t = ''0X'' then radix_literal 16 (drop 2 t)
         else if take 2 t = ''0o'' \<or> take 2 t = ''0O'' then radix_literal 8 (drop 2 t)
         else if take 2 t = ''0b'' \<or> take 2 t = ''0B'' then radix_literal 2 (drop 2 t)
         else (case parse_decimal t of
                 None \<Rightarrow> NaN
               | Some (v, r) \<Rightarrow> if r = [] then v else NaN))"

subsection \<open>Operators on values\<close>

fun nullish :: "jsval \<Rightarrow> bool" where
  "nullish Undefined = True"
| "nullish Null = True"
| "nullish v = False"

fun truthy :: "jsval \<Rightarrow> bool" where
  "truthy Undefined = False"
| "truthy Null = False"
| "truthy (Bool b) = b"
| "truthy (Num n) = (n \<noteq> NaN \<and> n \<noteq> Fin 0)"
| "truthy (Str s) = (s \<noteq> [])"
| "truthy (Arr xs) = True"
| "truthy (Obj kvs) = True"

text \<open>\<^verbatim>\<open>a || b\<close>.\<close>

definition js_or :: "jsval \<Rightarrow> jsval \<Rightarrow> jsval" where
  "js_or a b = (if truthy a then a else b)"

text \<open>
  \<^verbatim>\<open>o.k\<close> for an identifier \<open>k\<close> that no prototype defines (every name the translators
  read is one): a \<^verbatim>\<open>TypeError\<close> on \<^verbatim>\<open>undefined\<close> and \<^verbatim>\<open>null\<close>, the own property
  otherwise.
\<close>

fun js_get :: "jsval \<Rightarrow> string \<Rightarrow> error + jsval" where
  "js_get Undefined k = Inl TypeError"
| "js_get Null k = Inl TypeError"
| "js_get (Obj kvs) k = Inr (case map_of kvs k of None \<Rightarrow> Undefined | Some v \<Rightarrow> v)"
| "js_get (Arr xs) k = Inr (if k = ''length'' then Num (Fin (of_nat (length xs))) else Undefined)"
| "js_get (Str s) k = Inr (if k = ''length'' then Num (Fin (of_nat (length s))) else Undefined)"
| "js_get v k = Inr Undefined"

text \<open>\<^verbatim>\<open>o?.k\<close>.\<close>

definition opt_get :: "jsval \<Rightarrow> string \<Rightarrow> jsval" where
  "opt_get v k = (if nullish v then Undefined else (case js_get v k of Inl e \<Rightarrow> Undefined | Inr x \<Rightarrow> x))"

text \<open>\<^verbatim>\<open>o?.[i]\<close> for a literal index \<open>i\<close>.\<close>

fun opt_index :: "jsval \<Rightarrow> nat \<Rightarrow> jsval" where
  "opt_index (Arr xs) i = (if i < length xs then xs ! i else Undefined)"
| "opt_index (Str s) i = (if i < length s then Str [s ! i] else Undefined)"
| "opt_index (Obj kvs) i = (case map_of kvs (string_of_nat i) of None \<Rightarrow> Undefined | Some v \<Rightarrow> v)"
| "opt_index v i = Undefined"

text \<open>
  \<^verbatim>\<open>ToString\<close>. An array is joined with commas, \<^verbatim>\<open>undefined\<close> and \<^verbatim>\<open>null\<close> elements
  printing as the empty string. An object parsed from JSON has no callable property of its
  own, so it prints as \<^verbatim>\<open>[object Object]\<close> unless it has an own property \<^verbatim>\<open>toString\<close>,
  which hides the inherited method and leaves the conversion with a \<^verbatim>\<open>TypeError\<close>.
\<close>

fun to_string :: "jsval \<Rightarrow> error + string"
  and join_elements :: "jsval list \<Rightarrow> error + string" where
  "to_string Undefined = Inr ''undefined''"
| "to_string Null = Inr ''null''"
| "to_string (Bool b) = Inr (if b then ''true'' else ''false'')"
| "to_string (Num n) = Inr (number_to_string n)"
| "to_string (Str s) = Inr s"
| "to_string (Arr xs) = join_elements xs"
| "to_string (Obj kvs) =
     (if map_of kvs ''toString'' = None then Inr ''[object Object]'' else Inl TypeError)"
| "join_elements [] = Inr []"
| "join_elements (x # xs) =
     andThen (if nullish x then Inr [] else to_string x) (\<lambda>s.
       if xs = [] then Inr s
       else andThen (join_elements xs) (\<lambda>r. Inr (s @ '','' @ r)))"

text \<open>\<^verbatim>\<open>v.toString()\<close>, the method call.\<close>

definition toString_call :: "jsval \<Rightarrow> error + string" where
  "toString_call v = (if nullish v then Inl TypeError else to_string v)"

text \<open>\<^verbatim>\<open>ToNumber\<close>.\<close>

fun to_number :: "jsval \<Rightarrow> error + jsnum" where
  "to_number Undefined = Inr NaN"
| "to_number Null = Inr (Fin 0)"
| "to_number (Bool b) = Inr (Fin (if b then 1 else 0))"
| "to_number (Num n) = Inr n"
| "to_number (Str s) = Inr (string_to_number s)"
| "to_number v = andThen (to_string v) (\<lambda>s. Inr (string_to_number s))"

text \<open>\<^verbatim>\<open>v > n\<close> against a number \<open>n\<close>: the left operand is converted with \<^verbatim>\<open>ToNumber\<close>.\<close>

definition js_gt_num :: "jsval \<Rightarrow> jsnum \<Rightarrow> error + bool" where
  "js_gt_num v n = andThen (to_number v) (\<lambda>m. Inr (jsnum_gt m n))"

text \<open>\<^verbatim>\<open>a * b\<close>.\<close>

definition js_mul :: "jsval \<Rightarrow> jsval \<Rightarrow> error + jsnum" where
  "js_mul a b = andThen (to_number a) (\<lambda>x. andThen (to_number b) (\<lambda>y. Inr (jsnum_mul x y)))"

definition parseFloat :: "jsval \<Rightarrow> error + jsnum" where
  "parseFloat v = andThen (to_string v) (\<lambda>s. Inr (parseFloat_string s))"

definition parseInt :: "jsval \<Rightarrow> error + jsnum" where
  "parseInt v = andThen (to_string v) (\<lambda>s. Inr (parseInt_string s))"

text \<open>\<^verbatim>\<open>s.split(sep)\<close> on strings, for a separator that is not empty.\<close>

fun split_from :: "string \<Rightarrow> string \<Rightarrow> string \<Rightarrow> string list" where
  "split_from sep cur [] = [rev cur]"
| "split_from sep cur (c # cs) =
     (if sep \<noteq> [] \<and> take (length sep) (c # cs) = sep
      then rev cur # split_from sep [] (drop (length sep - 1) cs)
      else split_from sep (c # cur) cs)"

definition split_call :: "jsval \<Rightarrow> string \<Rightarrow> error + jsval" where
  "split_call v sep =
     (case v of Str s \<Rightarrow> Inr (Arr (map Str (split_from sep [] s))) | _ \<Rightarrow> Inl TypeError)"

fun contains :: "string \<Rightarrow> string \<Rightarrow> bool" where
  "contains pat [] = (pat = [])"
| "contains pat (c # cs) = (take (length pat) (c # cs) = pat \<or> contains pat cs)"

text \<open>
  \<^verbatim>\<open>v.includes(pat)\<close> for a string \<open>pat\<close>: substring search on a string, membership on an
  array, and a \<^verbatim>\<open>TypeError\<close> on every other value, which has no such method.
\<close>

definition includes_call :: "jsval \<Rightarrow> string \<Rightarrow> error + jsval" where
  "includes_call v pat =
     (case v of
        Str s \<Rightarrow> Inr (Bool (contains pat s))
      | Arr xs \<Rightarrow> Inr (Bool (Str pat \<in> set xs))
      | _ \<Rightarrow> Inl TypeError)"

text \<open>\<^verbatim>\<open>v.map(f)\<close>: only an array has the method.\<close>

definition map_call :: "jsval \<Rightarrow> (jsval \<Rightarrow> error + jsval) \<Rightarrow> error + jsval" where
  "map_call v f =
     (case v of Arr xs \<Rightarrow> andThen (mapM f xs) (\<lambda>ys. Inr (Arr ys)) | _ \<Rightarrow> Inl TypeError)"

section \<open>The Shopify translator for products\<close>

text \<open>
  \<^verbatim>\<open>ShopifyWebhookHandler.convertShopifyProduct\<close> of
  \<^verbatim>\<open>services/shopifyWebhookHandler.js\<close>. The object literal it returns is the list of its
  properties in the order the source writes them; the expressions are evaluated in that order,
  and the first one that throws ends the translation.
\<close>

definition placeholder :: string where
  "placeholder = ''https://via.placeholder.com/400''"

text \<open>The arrow function given to \<^verbatim>\<open>product.variants?.map\<close>.\<close>

definition convertVariant :: "jsval \<Rightarrow> error + jsval" where
  "convertVariant v =
     andThen (js_get v ''id'') (\<lambda>vid.
     andThen (js_get v ''title'') (\<lambda>title.
     andThen (js_get v ''price'') (\<lambda>p.
     andThen (parseFloat p) (\<lambda>price.
     andThen (js_get v ''sku'') (\<lambda>sku.
     andThen (js_get v ''inventory_quantity'') (\<lambda>q.
       Inr (Obj [(''id'', vid), (''title'', title), (''price'', Num price), (''sku'', sku),
                 (''inventoryQuantity'', q)])))))))"

definition convertShopifyProduct :: "jsval \<Rightarrow> error + (string \<times> jsval) list" where
  "convertShopifyProduct product =
     andThen (js_get product ''variants'') (\<lambda>variants.
     let mainVariant = js_or (opt_index variants 0) (Obj []) in
     andThen (js_get product ''images'') (\<lambda>images.
     andThen (js_get product ''image'') (\<lambda>image.
     let mainImage = js_or (js_or (opt_get (opt_index images 0) ''src'') (opt_get image ''src''))
                           (Str placeholder) in
     andThen (if nullish images then Inr Undefined
              else map_call images (\<lambda>img. js_get img ''src'')) (\<lambda>mapped.
     let images' = js_or mapped (Arr []) in
     andThen (js_get product ''id'') (\<lambda>pid.
     andThen (toString_call pid) (\<lambda>shopifyId.
     andThen (js_get product ''title'') (\<lambda>title.
     andThen (js_get product ''vendor'') (\<lambda>vendor.
     andThen (js_get product ''product_type'') (\<lambda>product_type.
     andThen (js_get mainVariant ''price'') (\<lambda>mv_price.
     andThen (parseFloat (js_or mv_price (Num (Fin 0)))) (\<lambda>price.
     andThen (js_get mainVariant ''compare_at_price'') (\<lambda>mv_compare.
     andThen (parseFloat (js_or mv_compare (Num (Fin 0)))) (\<lambda>compareAtPrice.
     andThen (js_get product ''body_html'') (\<lambda>body_html.
     andThen (js_get mainVariant ''inventory_quantity'') (\<lambda>inventory_quantity.
     andThen (js_gt_num inventory_quantity (Fin 0)) (\<lambda>inStock.
     andThen (js_get mainVariant ''sku'') (\<lambda>sku.
     andThen (js_get mainVariant ''barcode'') (\<lambda>barcode.
     andThen (js_get product ''tags'') (\<lambda>tags.
     andThen (if truthy tags then split_call tags '', '' else Inr (Arr [])) (\<lambda>tags'.
     andThen (if nullish variants then Inr Undefined
              else map_call variants convertVariant) (\<lambda>vmapped.
     andThen (if nullish tags then Inr Undefined else includes_call tags ''new'') (\<lambda>has_new.
     andThen (if nullish tags then Inr Undefined else includes_call tags ''featured'') (\<lambda>has_featured.
     andThen (js_get product ''created_at'') (\<lambda>created_at.
     andThen (js_get product ''updated_at'') (\<lambda>updated_at.
       Inr [(''shopifyId'', Str shopifyId),
            (''name'', title),
            (''brand'', js_or vendor (Str ''Unknown'')),
            (''category'', js_or product_type (Str ''Uncategorized'')),
            (''price'', Num price),
            (''compareAtPrice'', Num compareAtPrice),
            (''description'', js_or body_html (Str [])),
            (''imageUrl'', mainImage),
            (''images'', images'),
            (''inStock'', Bool inStock),
            (''stockQuantity'', js_or inventory_quantity (Num (Fin 0))),
            (''sku'', sku),
            (''barcode'', barcode),
            (''tags'', tags'),
            (''variants'', js_or vmapped (Arr [])),
            (''isNew'', js_or has_new (Bool False)),
            (''isFeatured'', js_or has_featured (Bool False)),
            (''dateAdded'', created_at),
            (''lastUpdated'', updated_at)])))))))))))))))))))))))))"

text \<open>\<^verbatim>\<open>v?.toString()\<close>.\<close>

definition opt_toString :: "jsval \<Rightarrow> error + jsval" where
  "opt_toString v = (if nullish v then Inr Undefined else andThen (to_string v) (\<lambda>s. Inr (Str s)))"

section \<open>The Shopify translators for customers and orders\<close>

text \<open>\<^verbatim>\<open>ShopifyWebhookHandler.convertShopifyCustomer\<close>.\<close>

definition convertShopifyCustomer :: "jsval \<Rightarrow> error + (string \<times> jsval) list" where
  "convertShopifyCustomer customer =
     andThen (js_get customer ''default_address'') (\<lambda>da.
     let defaultAddress = js_or da (Obj []) in
     andThen (js_get customer ''id'') (\<lambda>cid.
     andThen (toString_call cid) (\<lambda>shopifyId.
     andThen (js_get customer ''first_name'') (\<lambda>first_name.
     andThen (js_get customer ''last_name'') (\<lambda>last_name.
     andThen (js_get customer ''email'') (\<lambda>email.
     andThen (js_get customer ''phone'') (\<lambda>phone.
     andThen (js_get customer ''orders_count'') (\<lambda>orders_count.
     andThen (js_get customer ''total_spent'') (\<lambda>total_spent.
     andThen (parseFloat (js_or total_spent (Num (Fin 0)))) (\<lambda>totalSpent.
     andThen (js_get defaultAddress ''address1'') (\<lambda>address1.
     andThen (js_get defaultAddress ''address2'') (\<lambda>address2.
     andThen (js_get defaultAddress ''city'') (\<lambda>city.
     andThen (js_get defaultAddress ''province'') (\<lambda>province.
     andThen (js_get defaultAddress ''country'') (\<lambda>country.
     andThen (js_get defaultAddress ''zip'') (\<lambda>zip.
     andThen (js_get customer ''tags'') (\<lambda>tags.
     andThen (if truthy tags then split_call tags '', '' else Inr (Arr [])) (\<lambda>tags'.
     andThen (js_get customer ''created_at'') (\<lambda>created_at.
     andThen (js_get customer ''updated_at'') (\<lambda>updated_at.
       Inr [(''shopifyId'', Str shopifyId),
            (''firstName'', first_name),
            (''lastName'', last_name),
            (''email'', email),
            (''phone'', phone),
            (''ordersCount'', js_or orders_count (Num (Fin 0))),
            (''totalSpent'', Num totalSpent),
            (''address'', Obj [(''address1'', address1), (''address2'', address2),
                               (''city'', city), (''province'', province),
                               (''country'', country), (''zip'', zip)]),
            (''tags'', tags'),
            (''dateAdded'', created_at),
            (''lastUpdated'', updated_at)]))))))))))))))))))))"

text \<open>The arrow function given to \<^verbatim>\<open>order.line_items?.map\<close>.\<close>

definition convertLineItem :: "jsval \<Rightarrow> error + jsval" where
  "convertLineItem item =
     andThen (js_get item ''product_id'') (\<lambda>product_id.
     andThen (opt_toString product_id) (\<lambda>productId.
     andThen (js_get item ''variant_id'') (\<lambda>variant_id.
     andThen (opt_toString variant_id) (\<lambda>variantId.
     andThen (js_get item ''name'') (\<lambda>name.
     andThen (js_get item ''quantity'') (\<lambda>quantity.
     andThen (js_get item ''price'') (\<lambda>p.
     andThen (parseFloat p) (\<lambda>price.
     andThen (parseFloat p) (\<lambda>price'.
     andThen (js_mul (Num price') quantity) (\<lambda>total.
     andThen (js_get item ''sku'') (\<lambda>sku.
       Inr (Obj [(''productId'', productId), (''variantId'', variantId), (''name'', name),
                 (''quantity'', quantity), (''price'', Num price), (''total'', Num total),
                 (''sku'', sku)]))))))))))))"

text \<open>
  A value handed to the store is a JavaScript value or a \<^verbatim>\<open>Date\<close> object, given by its
  time in milliseconds; \<^verbatim>\<open>new Date()\<close> is the reading \<open>now\<close> of the clock.
\<close>

datatype svalue = Val jsval | Date int

definition vals :: "(string \<times> jsval) list \<Rightarrow> (string \<times> svalue) list" where
  "vals kvs = map (\<lambda>(k, v). (k, Val v)) kvs"

text \<open>\<^verbatim>\<open>ShopifyWebhookHandler.convertShopifyOrder\<close>.\<close>

definition convertShopifyOrder :: "int \<Rightarrow> jsval \<Rightarrow> error + (string \<times> svalue) list" where
  "convertShopifyOrder now order =
     andThen (js_get order ''id'') (\<lambda>oid.
     andThen (toString_call oid) (\<lambda>shopifyId.
     andThen (js_get order ''order_number'') (\<lambda>order_number.
     andThen (js_get order ''customer'') (\<lambda>customer.
     andThen (opt_toString (opt_get customer ''id'')) (\<lambda>customerId.
     andThen (to_string (js_or (opt_get customer ''first_name'') (Str []))) (\<lambda>first.
     andThen (to_string (js_or (opt_get customer ''last_name'') (Str []))) (\<lambda>last.
     andThen (js_get order ''email'') (\<lambda>email.
     andThen (js_get order ''line_items'') (\<lambda>line_items.
     andThen (if nullish line_items then Inr Undefined
              else map_call line_items convertLineItem) (\<lambda>mapped.
     andThen (js_get order ''subtotal_price'') (\<lambda>subtotal_price.
     andThen (parseFloat (js_or subtotal_price (Num (Fin 0)))) (\<lambda>subtotal.
     andThen (js_get order ''total_tax'') (\<lambda>total_tax.
     andThen (parseFloat (js_or total_tax (Num (Fin 0)))) (\<lambda>tax.
     andThen (js_get order ''total_shipping_price_set'') (\<lambda>price_set.
     andThen (parseFloat (js_or (opt_get (opt_get price_set ''shop_money'') ''amount'')
                                (Num (Fin 0)))) (\<lambda>shipping.
     andThen (js_get order ''total_price'') (\<lambda>total_price.
     andThen (parseFloat (js_or total_price (Num (Fin 0)))) (\<lambda>total.
     andThen (js_get order ''currency'') (\<lambda>currency.
     andThen (js_get order ''financial_status'') (\<lambda>financial_status.
     andThen (js_get order ''fulfillment_status'') (\<lambda>fulfillment_status.
     andThen (js_get order ''shipping_address'') (\<lambda>shipping_address.
     andThen (js_get order ''billing_address'') (\<lambda>billing_address.
     andThen (js_get order ''created_at'') (\<lambda>created_at.
     andThen (js_get order ''updated_at'') (\<lambda>updated_at.
       Inr (vals [(''shopifyId'', Str shopifyId),
                  (''orderNumber'', order_number),
                  (''customerId'', customerId),
                  (''customerName'', Str (trim (first @ '' '' @ last))),
                  (''customerEmail'', email),
                  (''items'', js_or mapped (Arr [])),
                  (''subtotal'', Num subtotal),
                  (''tax'', Num tax),
                  (''shipping'', Num shipping),
                  (''total'', Num total),
                  (''currency'', currency),
                  (''status'', financial_status),
                  (''fulfillmentStatus'', fulfillment_status),
                  (''shippingAddress'', shipping_address),
                  (''billingAddress'', billing_address),
                  (''dateCreated'', created_at),
                  (''dateUpdated'', updated_at)]
            @ [(''lastUpdated'', Date now)]))))))))))))))))))))))))))"

section \<open>The Lightspeed translator for products\<close>

text \<open>
  \<^verbatim>\<open>WebhookHandler.convertItemToProduct\<close> of \<^verbatim>\<open>services/lightspeedWebhookHandler.js\<close>.
  The quantity on hand is parsed twice, once for each of the two stock properties.
\<close>

definition convertItemToProduct :: "int \<Rightarrow> jsval \<Rightarrow> error + (string \<times> svalue) list" where
  "convertItemToProduct now item =
     andThen (js_get item ''itemID'') (\<lambda>itemID.
     andThen (js_get item ''description'') (\<lambda>description.
     andThen (js_get item ''customSku'') (\<lambda>customSku.
     andThen (js_get item ''Manufacturer'') (\<lambda>manufacturer.
     andThen (js_get item ''Category'') (\<lambda>category.
     andThen (js_get item ''Prices'') (\<lambda>prices.
     andThen (parseFloat (js_or (opt_get (opt_index (opt_get prices ''ItemPrice'') 0) ''amount'')
                                (Num (Fin 0)))) (\<lambda>price.
     andThen (js_get item ''longDescription'') (\<lambda>longDescription.
     andThen (js_get item ''Images'') (\<lambda>imgs.
     let image_list = opt_get imgs ''Image'' in
     andThen (if nullish image_list then Inr Undefined
              else map_call image_list (\<lambda>img. js_get img ''baseImageURL'')) (\<lambda>mapped.
     andThen (js_get item ''ItemShops'') (\<lambda>shops.
     let qoh = opt_get (opt_index (opt_get shops ''ItemShop'') 0) ''qoh'' in
     andThen (parseInt (js_or qoh (Num (Fin 0)))) (\<lambda>quantity.
     andThen (parseInt (js_or qoh (Num (Fin 0)))) (\<lambda>quantity'.
     andThen (js_get item ''createTime'') (\<lambda>createTime.
     andThen (js_get item ''timeStamp'') (\<lambda>timeStamp.
       Inr (vals [(''lightspeedId'', itemID),
                  (''name'', js_or description customSku),
                  (''brand'', js_or (opt_get manufacturer ''name'') (Str ''Unknown'')),
                  (''category'', js_or (opt_get category ''name'') (Str ''Uncategorized'')),
                  (''price'', Num price),
                  (''description'', js_or (js_or longDescription description) (Str [])),
                  (''imageUrl'', js_or (opt_get (opt_index image_list 0) ''baseImageURL'')
                                       (Str placeholder)),
                  (''images'', js_or mapped (Arr [])),
                  (''inStock'', Bool (jsnum_gt quantity (Fin 0))),
                  (''stockQuantity'', Num quantity'),
                  (''sku'', customSku),
                  (''dateAdded'', createTime)]
            @ [(''lastUpdated'', if truthy timeStamp then Val timeStamp else Date now)])
     )))))))))))))))"

section \<open>The store\<close>

text \<open>
  The local store is MongoDB behind Mongoose models. A document maps property names to
  stored values; a collection is the list of its documents, in insertion order. What the
  handlers rely on from the library is modelled as follows, from its documented behaviour:
  \<^item> an update document without operators is a \<^verbatim>\<open>$set\<close> of its properties: the properties
    it names are overwritten, all others are kept;
  \<^item> properties whose value is \<^verbatim>\<open>undefined\<close> are removed from the update before it is
    applied;
  \<^item> a value set on a path of schema type \<^verbatim>\<open>Number\<close> is cast, and a value that is not a
    number (\<^verbatim>\<open>NaN\<close> included) is a \<^verbatim>\<open>CastError\<close> that rejects the whole operation;
  \<^item> a schema declared with \<^verbatim>\<open>timestamps: true\<close> has \<^verbatim>\<open>updatedAt\<close> set to the current
    time by every update, and \<^verbatim>\<open>createdAt\<close> when the document is inserted;
  \<^item> with \<^verbatim>\<open>upsert: true\<close>, when no document matches the filter a new one is inserted,
    made of the update and the filter's property.
  Casts to the other schema types, validators and schema defaults of paths that the update
  does not name are not modelled; the filter's value is compared as it is.
\<close>

type_synonym document = "string \<rightharpoonup> svalue"

type_synonym collection = "document list"

record model =
  number_paths :: "string list"
  timestamps :: bool

text \<open>
  The three schemas of \<^verbatim>\<open>models/Product.js\<close>, \<^verbatim>\<open>models/Customer.js\<close> and
  \<^verbatim>\<open>models/Order.js\<close>: their top-level paths of type \<^verbatim>\<open>Number\<close>, and the option
  \<^verbatim>\<open>timestamps: true\<close> that each of them declares (\<^verbatim>\<open>// Adds createdAt and updatedAt\<close>).
\<close>

definition Product :: model where
  "Product = \<lparr>number_paths = [''price'', ''compareAtPrice'', ''stockQuantity'', ''popularity'',
                              ''viewCount''],
              timestamps = True\<rparr>"

definition Customer :: model where
  "Customer = \<lparr>number_paths = [''ordersCount'', ''totalSpent''], timestamps = True\<rparr>"

definition Order :: model where
  "Order = \<lparr>number_paths = [''orderNumber'', ''subtotal'', ''tax'', ''shipping'', ''discount'',
                            ''total''],
            timestamps = True\<rparr>"

text \<open>The cast of a value to \<^verbatim>\<open>Number\<close>.\<close>

fun castNumber :: "jsval \<Rightarrow> error + jsval" where
  "castNumber Undefined = Inr Undefined"
| "castNumber Null = Inr Null"
| "castNumber (Str s) =
     (if s = [] then Inr Null
      else if string_to_number s = NaN then Inl CastError
      else Inr (Num (string_to_number s)))"
| "castNumber (Bool b) = Inr (Num (Fin (if b then 1 else 0)))"
| "castNumber (Num n) = (if n = NaN then Inl CastError else Inr (Num n))"
| "castNumber (Arr xs) = Inl CastError"
| "castNumber (Obj kvs) = Inl CastError"

definition castField :: "model \<Rightarrow> string \<times> svalue \<Rightarrow> error + string \<times> svalue" where
  "castField m kf =
     (case snd kf of
        Val v \<Rightarrow>
          if fst kf \<in> set (number_paths m)
          then andThen (castNumber v) (\<lambda>v'. Inr (fst kf, Val v'))
          else Inr kf
      | Date t \<Rightarrow> Inr kf)"

definition castUpdate :: "model \<Rightarrow> (string \<times> svalue) list \<Rightarrow> error + (string \<times> svalue) list" where
  "castUpdate m upd = mapM (castField m) (filter (\<lambda>kf. snd kf \<noteq> Val Undefined) upd)"

text \<open>The filter \<^verbatim>\<open>{ k: v }\<close>.\<close>

definition matches :: "string \<Rightarrow> jsval \<Rightarrow> document \<Rightarrow> bool" where
  "matches k v d = (d k = Some (Val v))"

fun update_first :: "(document \<Rightarrow> bool) \<Rightarrow> (document \<Rightarrow> document) \<Rightarrow> collection
    \<Rightarrow> collection option" where
  "update_first P f [] = None"
| "update_first P f (d # ds) =
     (if P d then Some (f d # ds) else map_option ((#) d) (update_first P f ds))"

fun delete_first :: "(document \<Rightarrow> bool) \<Rightarrow> collection \<Rightarrow> collection" where
  "delete_first P [] = []"
| "delete_first P (d # ds) = (if P d then ds else d # delete_first P ds)"

text \<open>What an update writes: the cast properties, then the timestamp of the update.\<close>

definition stamped :: "model \<Rightarrow> int \<Rightarrow> (string \<times> svalue) list \<Rightarrow> (string \<times> svalue) list" where
  "stamped m now written = written @ (if timestamps m then [(''updatedAt'', Date now)] else [])"

text \<open>
  \<^verbatim>\<open>Model.findOneAndUpdate({ k: v }, upd, { upsert })\<close> at time \<open>now\<close>. The callers ignore
  the document it returns, so the result is the collection afterwards.
\<close>

definition findOneAndUpdate ::
    "model \<Rightarrow> string \<Rightarrow> jsval \<Rightarrow> (string \<times> svalue) list \<Rightarrow> bool \<Rightarrow> int \<Rightarrow> collection
     \<Rightarrow> error + collection" where
  "findOneAndUpdate m k v upd upsert now coll =
     andThen (castUpdate m upd) (\<lambda>written.
       case update_first (matches k v) (\<lambda>d. d ++ map_of (stamped m now written)) coll of
         Some coll' \<Rightarrow> Inr coll'
       | None \<Rightarrow>
           if upsert
           then Inr (coll @ [map_of (stamped m now written @ [(k, Val v)] @
                                     (if timestamps m then [(''createdAt'', Date now)] else []))])
           else Inr coll)"

text \<open>\<^verbatim>\<open>Model.findOneAndDelete({ k: v })\<close>.\<close>

definition findOneAndDelete :: "string \<Rightarrow> jsval \<Rightarrow> collection \<Rightarrow> collection" where
  "findOneAndDelete k v coll = delete_first (matches k v) coll"

record store =
  products :: collection
  customers :: collection
  orders :: collection

section \<open>The Shopify event handlers\<close>

text \<open>
  The handlers of \<^verbatim>\<open>ShopifyWebhookHandler\<close>. Each starts by logging a template literal that
  reads \<^verbatim>\<open>id\<close> from its argument, which throws when the argument is \<^verbatim>\<open>null\<close> or the
  identifier cannot be converted to a string. A handler returns the store afterwards, or the
  exception it throws; it throws before the store is written, or not at all.
\<close>

definition log_id :: "jsval \<Rightarrow> error + string" where
  "log_id v = andThen (js_get v ''id'') to_string"

definition handleProductUpdate :: "int \<Rightarrow> store \<Rightarrow> jsval \<Rightarrow> error + store" where
  "handleProductUpdate now s shopifyProduct =
     andThen (log_id shopifyProduct) (\<lambda>logged.
     andThen (convertShopifyProduct shopifyProduct) (\<lambda>productData.
     andThen (js_get shopifyProduct ''id'') (\<lambda>pid.
     andThen (toString_call pid) (\<lambda>key.
     andThen (findOneAndUpdate Product ''shopifyId'' (Str key) (vals productData) True now
                (products s)) (\<lambda>coll.
       Inr (s\<lparr>products := coll\<rparr>))))))"

definition handleProductDelete :: "store \<Rightarrow> jsval \<Rightarrow> error + store" where
  "handleProductDelete s data =
     andThen (js_get data ''id'') (\<lambda>productId.
     andThen (to_string productId) (\<lambda>logged.
     andThen (toString_call productId) (\<lambda>key.
       Inr (s\<lparr>products := findOneAndDelete ''shopifyId'' (Str key) (products s)\<rparr>))))"

definition handleCustomerUpdate :: "int \<Rightarrow> store \<Rightarrow> jsval \<Rightarrow> error + store" where
  "handleCustomerUpdate now s shopifyCustomer =
     andThen (log_id shopifyCustomer) (\<lambda>logged.
     andThen (convertShopifyCustomer shopifyCustomer) (\<lambda>customerData.
     andThen (js_get shopifyCustomer ''id'') (\<lambda>cid.
     andThen (toString_call cid) (\<lambda>key.
     andThen (findOneAndUpdate Customer ''shopifyId'' (Str key) (vals customerData) True now
                (customers s)) (\<lambda>coll.
       Inr (s\<lparr>customers := coll\<rparr>))))))"

definition handleCustomerDelete :: "store \<Rightarrow> jsval \<Rightarrow> error + store" where
  "handleCustomerDelete s data =
     andThen (js_get data ''id'') (\<lambda>customerId.
     andThen (to_string customerId) (\<lambda>logged.
     andThen (toString_call customerId) (\<lambda>key.
       Inr (s\<lparr>customers := findOneAndDelete ''shopifyId'' (Str key) (customers s)\<rparr>))))"

definition handleOrderUpdate :: "int \<Rightarrow> store \<Rightarrow> jsval \<Rightarrow> error + store" where
  "handleOrderUpdate now s shopifyOrder =
     andThen (log_id shopifyOrder) (\<lambda>logged.
     andThen (convertShopifyOrder now shopifyOrder) (\<lambda>orderData.
     andThen (js_get shopifyOrder ''id'') (\<lambda>oid.
     andThen (toString_call oid) (\<lambda>key.
     andThen (findOneAndUpdate Order ''shopifyId'' (Str key) orderData True now
                (orders s)) (\<lambda>coll.
       Inr (s\<lparr>orders := coll\<rparr>))))))"

text \<open>The update document of \<^verbatim>\<open>handleOrderCancelled\<close>.\<close>

definition cancellation :: "int \<Rightarrow> jsval \<Rightarrow> (string \<times> svalue) list" where
  "cancellation now cancelled_at =
     [(''status'', Val (Str ''cancelled'')),
      (''cancelledAt'', Val cancelled_at),
      (''lastUpdated'', Date now)]"

definition handleOrderCancelled :: "int \<Rightarrow> store \<Rightarrow> jsval \<Rightarrow> error + store" where
  "handleOrderCancelled now s shopifyOrder =
     andThen (log_id shopifyOrder) (\<lambda>logged.
     andThen (js_get shopifyOrder ''id'') (\<lambda>oid.
     andThen (toString_call oid) (\<lambda>key.
     andThen (js_get shopifyOrder ''cancelled_at'') (\<lambda>cancelled_at.
     andThen (findOneAndUpdate Order ''shopifyId'' (Str key) (cancellation now cancelled_at)
                False now (orders s)) (\<lambda>coll.
       Inr (s\<lparr>orders := coll\<rparr>))))))"

text \<open>
  \<^verbatim>\<open>handleWebhook(topic, data)\<close>: the dispatch on the topic, inside a \<^verbatim>\<open>try\<close> whose
  \<^verbatim>\<open>catch\<close> turns an exception into \<^verbatim>\<open>{ success: false }\<close>. The topic is a header of the
  request and may be absent.
\<close>

definition dispatch :: "int \<Rightarrow> store \<Rightarrow> string option \<Rightarrow> jsval \<Rightarrow> error + store" where
  "dispatch now s topic data =
     (if topic = Some ''products/create'' \<or> topic = Some ''products/update''
        then handleProductUpdate now s data
      else if topic = Some ''products/delete'' then handleProductDelete s data
      else if topic = Some ''customers/create'' \<or> topic = Some ''customers/update''
        then handleCustomerUpdate now s data
      else if topic = Some ''customers/delete'' then handleCustomerDelete s data
      else if topic = Some ''orders/create'' \<or> topic = Some ''orders/updated''
        then handleOrderUpdate now s data
      else if topic = Some ''orders/cancelled'' then handleOrderCancelled now s data
      else Inr s)"

definition handleWebhook :: "int \<Rightarrow> store \<Rightarrow> string option \<Rightarrow> jsval \<Rightarrow> bool \<times> store" where
  "handleWebhook now s topic data =
     (case dispatch now s topic data of Inl e \<Rightarrow> (False, s) | Inr s' \<Rightarrow> (True, s'))"

section \<open>The signature verifier and the webhook endpoint\<close>

text \<open>
  What the endpoint takes from the runtime: the digest
  \<^verbatim>\<open>crypto.createHmac('sha256', key).update(text, 'utf8').digest('base64')\<close> as a function of
  the key and the text, \<^verbatim>\<open>JSON.parse\<close>, and the message of an exception. They are parameters
  of the model, and what is proved holds for every choice of them.
\<close>

record runtime =
  hmac_sha256_base64 :: "string \<Rightarrow> string \<Rightarrow> string"
  JSON_parse :: "string \<Rightarrow> error + jsval"
  message :: "error \<Rightarrow> string"

text \<open>The two environment variables; an unset variable reads as \<^verbatim>\<open>undefined\<close>.\<close>

record env =
  SHOPIFY_WEBHOOK_SECRET :: "string option"
  SHOPIFY_API_SECRET :: "string option"

text \<open>
  \<^verbatim>\<open>process.env.SHOPIFY_WEBHOOK_SECRET || process.env.SHOPIFY_API_SECRET\<close>: an unset or
  empty first variable gives way to the second.
\<close>

definition secret_of :: "env \<Rightarrow> string option" where
  "secret_of e =
     (case SHOPIFY_WEBHOOK_SECRET e of
        None \<Rightarrow> SHOPIFY_API_SECRET e
      | Some w \<Rightarrow> if w = [] then SHOPIFY_API_SECRET e else Some w)"

text \<open>
  \<^verbatim>\<open>verifyWebhook(body, hmacHeader)\<close>. \<^verbatim>\<open>createHmac\<close> throws a \<^verbatim>\<open>TypeError\<close> when the
  key is \<^verbatim>\<open>undefined\<close>. The header is absent or a string, and \<^verbatim>\<open>===\<close> compares it with
  the digest.
\<close>

definition verifyWebhook :: "runtime \<Rightarrow> env \<Rightarrow> string \<Rightarrow> string option \<Rightarrow> error + bool" where
  "verifyWebhook rt e body hmacHeader =
     (case secret_of e of
        None \<Rightarrow> Inl TypeError
      | Some secret \<Rightarrow> Inr (Some (hmac_sha256_base64 rt secret body) = hmacHeader))"

text \<open>
  A request as the route handler of \<^verbatim>\<open>POST /api/shopify/webhook\<close> reads it: the three
  headers, and \<open>rawBody\<close>, the string that \<^verbatim>\<open>req.body.toString('utf8')\<close> yields. This is
  the text that the handler hashes and parses; how the middleware before the handler fills
  \<^verbatim>\<open>req.body\<close> is not part of the model.
\<close>

record request =
  hmac_header :: "string option"
  topic_header :: "string option"
  shop_header :: "string option"
  rawBody :: string

record response =
  status :: nat
  body :: jsval

definition failure :: "runtime \<Rightarrow> error \<Rightarrow> response" where
  "failure rt e =
     \<lparr>status = 500, body = Obj [(''success'', Bool False), (''error'', Str (message rt e))]\<rparr>"

text \<open>
  The route handler. The processing that the source starts before it responds and does not
  await is run to its end here: the store returned is the store once that processing is over.
\<close>

definition webhook_endpoint :: "runtime \<Rightarrow> env \<Rightarrow> int \<Rightarrow> store \<Rightarrow> request \<Rightarrow> response \<times> store" where
  "webhook_endpoint rt e now s req =
     (case verifyWebhook rt e (rawBody req) (hmac_header req) of
        Inl err \<Rightarrow> (failure rt err, s)
      | Inr isValid \<Rightarrow>
          if \<not> isValid
          then (\<lparr>status = 401, body = Obj [(''error'', Str ''Invalid signature'')]\<rparr>, s)
          else (case JSON_parse rt (rawBody req) of
                  Inl err \<Rightarrow> (failure rt err, s)
                | Inr data \<Rightarrow>
                    (\<lparr>status = 200, body = Obj [(''success'', Bool True)]\<rparr>,
                     snd (handleWebhook now s (topic_header req) data))))"

section \<open>The bulk synchronisation of products\<close>

text \<open>\<^verbatim>\<open>ShopifyService.getProducts\<close>, from the answer of the platform to the request.\<close>

definition getProducts :: "error + jsval \<Rightarrow> error + jsval" where
  "getProducts answer =
     andThen answer (\<lambda>response.
     andThen (js_get response ''products'') (\<lambda>ps. Inr (js_or ps (Arr []))))"

text \<open>What \<^verbatim>\<open>for (const product of products)\<close> iterates over.\<close>

fun iterate :: "jsval \<Rightarrow> error + jsval list" where
  "iterate (Arr xs) = Inr xs"
| "iterate (Str s) = Inr (map (\<lambda>c. Str [c]) s)"
| "iterate v = Inl TypeError"

text \<open>
  The loop of \<^verbatim>\<open>POST /api/shopify/sync/products\<close>. The item of index \<open>i\<close> is processed at
  time \<open>clock i\<close>. The \<^verbatim>\<open>catch\<close> of the loop body logs a template literal that reads the
  identifier of the product; when that throws, the loop is left with the exception.
\<close>

fun sync_loop :: "(nat \<Rightarrow> int) \<Rightarrow> nat \<Rightarrow> jsval list \<Rightarrow> store \<Rightarrow> nat \<Rightarrow> nat
    \<Rightarrow> store \<times> (error + nat \<times> nat)" where
  "sync_loop clock i [] s synced errors = (s, Inr (synced, errors))"
| "sync_loop clock i (product # rest) s synced errors =
     (case handleProductUpdate (clock i) s product of
        Inr s' \<Rightarrow> sync_loop clock (Suc i) rest s' (synced + 1) errors
      | Inl e \<Rightarrow>
          (case log_id product of
             Inl e' \<Rightarrow> (s, Inl e')
           | Inr logged \<Rightarrow> sync_loop clock (Suc i) rest s synced (errors + 1)))"

definition sync_summary :: "nat \<Rightarrow> nat \<Rightarrow> nat \<Rightarrow> response" where
  "sync_summary synced errors n =
     \<lparr>status = 200,
      body = Obj [(''success'', Bool True),
                  (''synced'', Num (Fin (of_nat synced))),
                  (''errors'', Num (Fin (of_nat errors))),
                  (''total'', Num (Fin (of_nat n))),
                  (''message'', Str (''Synced '' @ string_of_nat synced @ '' of '' @
                                      string_of_nat n @ '' products''))]\<rparr>"

definition sync_products :: "runtime \<Rightarrow> (nat \<Rightarrow> int) \<Rightarrow> error + jsval \<Rightarrow> store \<Rightarrow> response \<times> store" where
  "sync_products rt clock answer s =
     (case andThen (getProducts answer) iterate of
        Inl e \<Rightarrow> (failure rt e, s)
      | Inr items \<Rightarrow>
          (case sync_loop clock 0 items s 0 0 of
             (s', Inl e) \<Rightarrow> (failure rt e, s')
           | (s', Inr (synced, errors)) \<Rightarrow> (sync_summary synced errors (length items), s')))"

section \<open>The Lightspeed handler for items\<close>

text \<open>
  \<^verbatim>\<open>WebhookHandler.handleItemUpdate\<close>. The platform client \<open>getItemById\<close> and the model of
  the products of that backend, whose schema is not part of the sources, are parameters.
\<close>

definition handleItemUpdate ::
    "(jsval \<Rightarrow> error + jsval) \<Rightarrow> model \<Rightarrow> int \<Rightarrow> store \<Rightarrow> jsval \<Rightarrow> error + store" where
  "handleItemUpdate getItemById m now s itemId =
     andThen (to_string itemId) (\<lambda>logged.
     andThen (getItemById itemId) (\<lambda>item.
     andThen (convertItemToProduct now item) (\<lambda>productData.
     andThen (findOneAndUpdate m ''lightspeedId'' itemId productData True now (products s))
       (\<lambda>coll. Inr (s\<lparr>products := coll\<rparr>)))))"

section \<open>Properties of the values\<close>

text \<open>The value of property \<open>k\<close> of a translated record.\<close>

definition field_of :: "(string \<times> 'v) list \<Rightarrow> string \<Rightarrow> 'v option" where
  "field_of r k = map_of r k"

text \<open>The main variant of a product payload, as the translator picks it.\<close>

definition mainVariant_of :: "jsval \<Rightarrow> jsval" where
  "mainVariant_of product = js_or (opt_index (opt_get product ''variants'') 0) (Obj [])"

text \<open>
  A payload without images: no list of images, or an empty one, and no main image, or one
  without a source.
\<close>

definition no_images :: "jsval \<Rightarrow> bool" where
  "no_images product =
     ((nullish (opt_get product ''images'') \<or> opt_get product ''images'' = Arr [])
      \<and> \<not> truthy (opt_get (opt_get product ''image'') ''src''))"

text \<open>The invariant of a stored product: \<^verbatim>\<open>inStock == (stockQuantity > 0)\<close>.\<close>

definition stock_consistent :: "document \<Rightarrow> bool" where
  "stock_consistent d =
     (case (d ''inStock'', d ''stockQuantity'') of
        (Some (Val (Bool b)), Some (Val q)) \<Rightarrow> js_gt_num q (Fin 0) = Inr b
      | _ \<Rightarrow> False)"


text \<open>Property \<open>f\<close> of the stored product whose external identifier is \<open>key\<close>.\<close>

definition product_field :: "store \<Rightarrow> string \<Rightarrow> string \<Rightarrow> svalue option" where
  "product_field s key f =
     (case List.find (matches ''shopifyId'' (Str key)) (products s) of
        None \<Rightarrow> None
      | Some d \<Rightarrow> d f)"

text \<open>Property \<open>k\<close> of the translation of a product payload.\<close>

definition translated :: "jsval \<Rightarrow> string \<Rightarrow> error + jsval option" where
  "translated product k = andThen (convertShopifyProduct product) (\<lambda>r. Inr (field_of r k))"




text \<open>The answer of the platform to the request for products: \<^verbatim>\<open>{ products: items }\<close>.\<close>

definition batch :: "jsval list \<Rightarrow> error + jsval" where
  "batch items = Inr (Obj [(''products'', Arr items)])"




section \<open>Sample data\<close>

definition empty_store :: store where
  "empty_store = \<lparr>products = [], customers = [], orders = []\<rparr>"

text \<open>
  The payload of the end-to-end scenario:
  \<^verbatim>\<open>{id:123, title:"Mop", vendor:"Acme", variants:[{price:"9.99", inventory_quantity:5}]}\<close>.
\<close>

definition mop :: jsval where
  "mop = Obj [(''id'', Num (Fin 123)), (''title'', Str ''Mop''), (''vendor'', Str ''Acme''),
              (''variants'', Arr [Obj [(''price'', Str ''9.99''),
                                       (''inventory_quantity'', Num (Fin 5))]])]"

text \<open>A product whose price does not parse, and one without brand, category and images.\<close>

definition broom :: jsval where
  "broom = Obj [(''id'', Num (Fin 124)), (''title'', Str ''Broom''), (''vendor'', Str ''Acme''),
                (''variants'', Arr [Obj [(''price'', Str ''abc''),
                                         (''inventory_quantity'', Num (Fin 2))]])]"

definition bucket :: jsval where
  "bucket = Obj [(''id'', Num (Fin 125)), (''title'', Str ''Bucket''), (''images'', Arr []),
                 (''image'', Null)]"

text \<open>
  An item as the Lightspeed platform returns it, with four pieces on hand, and a platform
  client that answers every request with it.
\<close>

definition vacuum :: jsval where
  "vacuum = Obj [(''itemID'', Str ''9''), (''description'', Str ''Vacuum''),
                 (''ItemShops'', Obj [(''ItemShop'', Arr [Obj [(''qoh'', Str ''4'')]])])]"

definition fetch_vacuum :: "jsval \<Rightarrow> error + jsval" where
  "fetch_vacuum itemId = Inr vacuum"

text \<open>A runtime for the examples; nothing that is proved depends on its choice.\<close>

definition sample_runtime :: runtime where
  "sample_runtime =
     \<lparr>hmac_sha256_base64 = (\<lambda>key text. key @ '':'' @ text),
      JSON_parse = (\<lambda>text. Inl SyntaxError),
      message = (\<lambda>e. ''error'')\<rparr>"

definition seconds :: "nat \<Rightarrow> int" where
  "seconds i = 1000 * int i"

text \<open>
  The request of the end-to-end scenario: the topic \<^verbatim>\<open>products/update\<close>, a body that parses
  to \<open>mop\<close> (the runtime of the example parses every text to it), and the digest of that body under the secret.
\<close>

definition mop_runtime :: runtime where
  "mop_runtime = sample_runtime\<lparr>JSON_parse := (\<lambda>text. Inr mop)\<rparr>"

definition mop_env :: env where
  "mop_env = \<lparr>SHOPIFY_WEBHOOK_SECRET = Some ''whsec'', SHOPIFY_API_SECRET = None\<rparr>"

definition mop_request :: request where
  "mop_request =
     \<lparr>hmac_header = Some (hmac_sha256_base64 mop_runtime ''whsec'' ''mop.json''),
      topic_header = Some ''products/update'',
      shop_header = Some ''clean.myshopify.com'',
      rawBody = ''mop.json''\<rparr>"




section \<open>Lemmas on the operators\<close>

lemma andThen_Inr [simp]: "andThen (Inr v) f = f v"
  by (simp add: andThen_def)

lemma andThen_Inl [simp]: "andThen (Inl e) f = Inl e"
  by (simp add: andThen_def)

lemma andThen_eq_Inr: "andThen m f = Inr r \<longleftrightarrow> (\<exists>v. m = Inr v \<and> f v = Inr r)"
  by (cases m) simp_all

lemma js_get_nullish: "nullish v \<Longrightarrow> js_get v k = Inl TypeError"
  by (cases v) simp_all

lemma js_get_not_nullish: "\<not> nullish v \<Longrightarrow> js_get v k = Inr (opt_get v k)"
  by (cases v) (simp_all add: opt_get_def)

lemma truthy_not_nullish: "truthy v \<Longrightarrow> \<not> nullish v"
  by (cases v) simp_all

lemma js_or_Obj_not_nullish [simp]: "\<not> nullish (js_or v (Obj kvs))"
  by (simp add: js_or_def truthy_not_nullish)

section \<open>Lemmas on the store\<close>


lemma update_first_members:
  "update_first P f coll = Some coll' \<Longrightarrow> d' \<in> set coll' \<Longrightarrow> d' \<in> set coll \<or> (\<exists>d\<in>set coll. P d \<and> d' = f d)"
  by (induction coll arbitrary: coll') (auto split: if_splits)

lemma update_first_writes:
  "update_first P f coll = Some coll' \<Longrightarrow> \<exists>d\<in>set coll. P d \<and> f d \<in> set coll'"
  by (induction coll arbitrary: coll') (auto split: if_splits)





lemma castField_key: "castField m kf = Inr kf' \<Longrightarrow> fst kf' = fst kf"
  by (cases kf) (auto simp: castField_def andThen_eq_Inr split: svalue.splits if_splits)

lemma mapM_castField_lookup:
  "mapM (castField m) xs = Inr w \<Longrightarrow>
   map_of w f = (case map_of xs f of None \<Rightarrow> None
                 | Some x \<Rightarrow> (case castField m (f, x) of Inl e \<Rightarrow> None | Inr kf \<Rightarrow> Some (snd kf)))"
proof (induction xs arbitrary: w)
  case Nil
  then show ?case by simp
next
  case (Cons a xs)
  from Cons.prems obtain b ys where b: "castField m a = Inr b" and ys: "mapM (castField m) xs = Inr ys"
    and w: "w = b # ys"
    by (auto simp: andThen_eq_Inr)
  have k: "fst b = fst a" using b by (rule castField_key)
  show ?case
  proof (cases "fst a = f")
    case True
    then have "a = (f, snd a)" by (cases a) simp
    with b have "castField m (f, snd a) = Inr b" by simp
    with True k w show ?thesis by (cases a, cases b) auto
  next
    case False
    with k w Cons.IH [OF ys] show ?thesis by (cases a, cases b) auto
  qed
qed

lemma map_of_filter_defined:
  "map_of upd f = Some x \<Longrightarrow> x \<noteq> Val Undefined \<Longrightarrow>
   map_of (filter (\<lambda>kf. snd kf \<noteq> Val Undefined) upd) f = Some x"
  by (induction upd) (auto split: if_splits)

lemma castUpdate_lookup:
  assumes "castUpdate m upd = Inr w" and "map_of upd f = Some x" and "x \<noteq> Val Undefined"
  shows "\<exists>x'. castField m (f, x) = Inr (f, x') \<and> map_of w f = Some x'"
proof -
  have look: "map_of (filter (\<lambda>kf. snd kf \<noteq> Val Undefined) upd) f = Some x"
    using assms(2,3) by (rule map_of_filter_defined)
  have mem: "(f, x) \<in> set (filter (\<lambda>kf. snd kf \<noteq> Val Undefined) upd)"
    using look by (rule map_of_SomeD)
  have all: "\<And>xs w a. mapM (castField m) xs = Inr w \<Longrightarrow> a \<in> set xs \<Longrightarrow> \<exists>b. castField m a = Inr b"
  proof -
    fix xs w a show "mapM (castField m) xs = Inr w \<Longrightarrow> a \<in> set xs \<Longrightarrow> \<exists>b. castField m a = Inr b"
      by (induction xs arbitrary: w) (auto simp: andThen_eq_Inr)
  qed
  from all [OF assms(1) [unfolded castUpdate_def] mem] obtain b where b: "castField m (f, x) = Inr b" by blast
  then have "fst b = f" using castField_key by fastforce
  then have b': "b = (f, snd b)" by (cases b) simp
  from mapM_castField_lookup [OF assms(1) [unfolded castUpdate_def], of f] look b
  have "map_of w f = Some (snd b)" by simp
  with b b' show ?thesis by metis
qed

lemma map_of_stamped_other:
  "f \<noteq> ''updatedAt'' \<Longrightarrow> map_of (stamped m t w) f = map_of w f"
  by (simp add: stamped_def map_add_def split: option.splits)


section \<open>Lemmas on the product translator\<close>

lemma map_of_vals: "map_of (vals r) f = map_option Val (map_of r f)"
  by (induction r) (auto simp: vals_def)

lemma convertShopifyProduct_not_nullish:
  "convertShopifyProduct product = Inr r \<Longrightarrow> \<not> nullish product"
  by (cases "nullish product") (simp_all add: convertShopifyProduct_def js_get_nullish)

lemma convertShopifyProduct_fields:
  assumes "convertShopifyProduct product = Inr r"
  shows "\<exists>key. toString_call (opt_get product ''id'') = Inr key \<and> field_of r ''shopifyId'' = Some (Str key)"
    and "field_of r ''brand'' = Some (js_or (opt_get product ''vendor'') (Str ''Unknown''))"
    and "field_of r ''category'' = Some (js_or (opt_get product ''product_type'') (Str ''Uncategorized''))"
    and "\<exists>n. parseFloat (js_or (opt_get (mainVariant_of product) ''price'') (Num (Fin 0))) = Inr n
             \<and> field_of r ''price'' = Some (Num n)"
    and "\<exists>n. parseFloat (js_or (opt_get (mainVariant_of product) ''compare_at_price'') (Num (Fin 0))) = Inr n
             \<and> field_of r ''compareAtPrice'' = Some (Num n)"
    and "field_of r ''imageUrl'' =
           Some (js_or (js_or (opt_get (opt_index (opt_get product ''images'') 0) ''src'')
                              (opt_get (opt_get product ''image'') ''src''))
                       (Str placeholder))"
    and "\<exists>mapped. (if nullish (opt_get product ''images'') then Inr Undefined
                    else map_call (opt_get product ''images'') (\<lambda>img. js_get img ''src'')) = Inr mapped
                  \<and> field_of r ''images'' = Some (js_or mapped (Arr []))"
    and "\<exists>b. js_gt_num (opt_get (mainVariant_of product) ''inventory_quantity'') (Fin 0) = Inr b
             \<and> field_of r ''inStock'' = Some (Bool b)"
    and "field_of r ''stockQuantity'' =
           Some (js_or (opt_get (mainVariant_of product) ''inventory_quantity'') (Num (Fin 0)))"
proof -
  have nn: "\<not> nullish product"
    using assms by (rule convertShopifyProduct_not_nullish)
  note a = assms [unfolded convertShopifyProduct_def Let_def,
      simplified js_get_not_nullish [OF nn] js_get_not_nullish [OF js_or_Obj_not_nullish] andThen_Inr]
  show "\<exists>key. toString_call (opt_get product ''id'') = Inr key \<and> field_of r ''shopifyId'' = Some (Str key)"
    using a by (auto simp: andThen_eq_Inr field_of_def)
  show "field_of r ''brand'' = Some (js_or (opt_get product ''vendor'') (Str ''Unknown''))"
    using a by (auto simp: andThen_eq_Inr field_of_def)
  show "field_of r ''category'' = Some (js_or (opt_get product ''product_type'') (Str ''Uncategorized''))"
    using a by (auto simp: andThen_eq_Inr field_of_def)
  show "\<exists>n. parseFloat (js_or (opt_get (mainVariant_of product) ''price'') (Num (Fin 0))) = Inr n
             \<and> field_of r ''price'' = Some (Num n)"
    using a by (auto simp: andThen_eq_Inr field_of_def mainVariant_of_def)
  show "\<exists>n. parseFloat (js_or (opt_get (mainVariant_of product) ''compare_at_price'') (Num (Fin 0))) = Inr n
             \<and> field_of r ''compareAtPrice'' = Some (Num n)"
    using a by (auto simp: andThen_eq_Inr field_of_def mainVariant_of_def)
  show "field_of r ''imageUrl'' =
           Some (js_or (js_or (opt_get (opt_index (opt_get product ''images'') 0) ''src'')
                              (opt_get (opt_get product ''image'') ''src''))
                       (Str placeholder))"
    using a by (auto simp: andThen_eq_Inr field_of_def)
  show "\<exists>mapped. (if nullish (opt_get product ''images'') then Inr Undefined
                    else map_call (opt_get product ''images'') (\<lambda>img. js_get img ''src'')) = Inr mapped
                  \<and> field_of r ''images'' = Some (js_or mapped (Arr []))"
    using a by (auto simp: andThen_eq_Inr field_of_def)
  show "\<exists>b. js_gt_num (opt_get (mainVariant_of product) ''inventory_quantity'') (Fin 0) = Inr b
             \<and> field_of r ''inStock'' = Some (Bool b)"
    using a by (auto simp: andThen_eq_Inr field_of_def mainVariant_of_def)
  show "field_of r ''stockQuantity'' =
           Some (js_or (opt_get (mainVariant_of product) ''inventory_quantity'') (Num (Fin 0)))"
    using a by (auto simp: andThen_eq_Inr field_of_def mainVariant_of_def)
qed

lemma castNumber_to_number: "castNumber q = Inr q' \<Longrightarrow> to_number q' = to_number q"
  by (cases q) (auto split: if_splits simp: string_to_number_def trim_def)

lemma castField_gt:
  assumes "castField m (f, Val q) = Inr (f, x')"
  shows "\<exists>q'. x' = Val q' \<and> js_gt_num q' n = js_gt_num q n"
  using assms
  by (auto simp: castField_def andThen_eq_Inr js_gt_num_def castNumber_to_number split: if_splits)

lemma js_or_zero_defined: "js_or v (Num (Fin 0)) \<noteq> Undefined"
  by (cases v) (auto simp: js_or_def)

lemma js_gt_num_or_zero: "js_gt_num v (Fin 0) = Inr b \<Longrightarrow> js_gt_num (js_or v (Num (Fin 0))) (Fin 0) = Inr b"
  by (cases v) (auto simp: js_or_def js_gt_num_def string_to_number_def trim_def split: if_splits)

section \<open>Fallbacks and defaults of the product translator\<close>

lemma parseFloat_zero: "parseFloat (Num (Fin 0)) = Inr (Fin 0)"
  by code_simp

lemma opt_get_nullish: "nullish v \<Longrightarrow> opt_get v k = Undefined"
  by (simp add: opt_get_def)

lemma parseFloat_Str: "parseFloat (Str s) = Inr (parseFloat_string s)"
  by (simp add: parseFloat_def)

text \<open>
  Claim C6, as the code has it. For every product payload that the translator accepts, the
  price and the compare-at price of the main variant are \<open>0\<close> when the property is missing,
  \<^verbatim>\<open>null\<close>, the empty string or any other falsy value; when it is a string that is not
  empty, they are the number that \<^verbatim>\<open>parseFloat\<close> reads from it, which is \<^verbatim>\<open>NaN\<close> and
  not \<open>0\<close> when no prefix of the string is a number.
\<close>

theorem price_fallback:
  assumes "convertShopifyProduct product = Inr r"
  shows "(\<not> truthy (opt_get (mainVariant_of product) ''price'')
            \<longrightarrow> field_of r ''price'' = Some (Num (Fin 0)))
       \<and> (\<forall>s. opt_get (mainVariant_of product) ''price'' = Str s \<and> s \<noteq> []
            \<longrightarrow> field_of r ''price'' = Some (Num (parseFloat_string s)))
       \<and> (\<not> truthy (opt_get (mainVariant_of product) ''compare_at_price'')
            \<longrightarrow> field_of r ''compareAtPrice'' = Some (Num (Fin 0)))
       \<and> (\<forall>s. opt_get (mainVariant_of product) ''compare_at_price'' = Str s \<and> s \<noteq> []
            \<longrightarrow> field_of r ''compareAtPrice'' = Some (Num (parseFloat_string s)))"
proof -
  from convertShopifyProduct_fields(4) [OF assms] obtain n where
    n: "parseFloat (js_or (opt_get (mainVariant_of product) ''price'') (Num (Fin 0))) = Inr n"
       "field_of r ''price'' = Some (Num n)"
    by blast
  from convertShopifyProduct_fields(5) [OF assms] obtain c where
    c: "parseFloat (js_or (opt_get (mainVariant_of product) ''compare_at_price'') (Num (Fin 0))) = Inr c"
       "field_of r ''compareAtPrice'' = Some (Num c)"
    by blast
  show ?thesis
    using n c by (auto simp: js_or_def parseFloat_zero parseFloat_Str)
qed

text \<open>The payload \<open>broom\<close>, whose price is \<^verbatim>\<open>"abc"\<close>, meets both cases.\<close>

theorem price_fallback_witness:
  "convertShopifyProduct broom = Inr (projr (convertShopifyProduct broom))
   \<and> opt_get (mainVariant_of broom) ''price'' = Str ''abc''
   \<and> field_of (projr (convertShopifyProduct broom)) ''price'' = Some (Num NaN)
   \<and> \<not> truthy (opt_get (mainVariant_of broom) ''compare_at_price'')
   \<and> field_of (projr (convertShopifyProduct broom)) ''compareAtPrice'' = Some (Num (Fin 0))"
proof -
  have "\<not> isl (convertShopifyProduct broom)" by code_simp
  then have h: "convertShopifyProduct broom = Inr (projr (convertShopifyProduct broom))" by simp
  have p: "opt_get (mainVariant_of broom) ''price'' = Str ''abc''" by code_simp
  have q: "\<not> truthy (opt_get (mainVariant_of broom) ''compare_at_price'')" by code_simp
  have nan: "parseFloat_string ''abc'' = NaN" by code_simp
  show ?thesis using price_fallback [OF h] h p q nan by simp
qed

text \<open>
  Claim C6 as stated fails: the price \<^verbatim>\<open>"abc"\<close> does not parse, and the translated price
  is \<^verbatim>\<open>NaN\<close>, not \<open>0\<close>.
\<close>

theorem unparsable_price_counterexample:
  "translated broom ''price'' = Inr (Some (Num NaN)) \<and> translated broom ''price'' \<noteq> Inr (Some (Num (Fin 0)))"
  by code_simp

text \<open>
  Claim C7. For every product payload that the translator accepts and that has no brand
  (\<^verbatim>\<open>vendor\<close>), no category (\<^verbatim>\<open>product_type\<close>) and no images, the translation has
  the brand \<^verbatim>\<open>"Unknown"\<close>, the category \<^verbatim>\<open>"Uncategorized"\<close>, the placeholder as image
  URL and the empty list of images.
\<close>

theorem default_substitution:
  assumes "convertShopifyProduct product = Inr r"
      and "\<not> truthy (opt_get product ''vendor'')"
      and "\<not> truthy (opt_get product ''product_type'')"
      and "no_images product"
  shows "field_of r ''brand'' = Some (Str ''Unknown'')
       \<and> field_of r ''category'' = Some (Str ''Uncategorized'')
       \<and> field_of r ''imageUrl'' = Some (Str placeholder)
       \<and> field_of r ''images'' = Some (Arr [])"
proof -
  note f = convertShopifyProduct_fields [OF assms(1)]
  have b: "field_of r ''brand'' = Some (Str ''Unknown'')"
    using f(2) assms(2) by (simp add: js_or_def)
  have c: "field_of r ''category'' = Some (Str ''Uncategorized'')"
    using f(3) assms(3) by (simp add: js_or_def)
  have i0: "opt_index (opt_get product ''images'') 0 = Undefined"
    using assms(4) by (cases "opt_get product ''images''") (auto simp: no_images_def)
  have im: "\<not> truthy (opt_get (opt_get product ''image'') ''src'')"
    using assms(4) by (simp add: no_images_def)
  have u: "field_of r ''imageUrl'' = Some (Str placeholder)"
    using f(6) im by (simp add: i0 js_or_def opt_get_nullish)
  from f(7) obtain mapped where m:
    "(if nullish (opt_get product ''images'') then Inr Undefined
      else map_call (opt_get product ''images'') (\<lambda>img. js_get img ''src'')) = Inr mapped"
    "field_of r ''images'' = Some (js_or mapped (Arr []))"
    by blast
  have "js_or mapped (Arr []) = Arr []"
    using m(1) assms(4) by (auto simp: no_images_def map_call_def js_or_def split: if_splits)
  with m(2) have l: "field_of r ''images'' = Some (Arr [])" by simp
  from b c u l show ?thesis by simp
qed

text \<open>The payload \<open>bucket\<close> is such a product.\<close>

theorem default_substitution_witness:
  "convertShopifyProduct bucket = Inr (projr (convertShopifyProduct bucket))
   \<and> \<not> truthy (opt_get bucket ''vendor'') \<and> \<not> truthy (opt_get bucket ''product_type'')
   \<and> no_images bucket
   \<and> field_of (projr (convertShopifyProduct bucket)) ''brand'' = Some (Str ''Unknown'')
   \<and> field_of (projr (convertShopifyProduct bucket)) ''category'' = Some (Str ''Uncategorized'')
   \<and> field_of (projr (convertShopifyProduct bucket)) ''imageUrl'' = Some (Str placeholder)
   \<and> field_of (projr (convertShopifyProduct bucket)) ''images'' = Some (Arr [])"
proof -
  have "\<not> isl (convertShopifyProduct bucket)" by code_simp
  then have h: "convertShopifyProduct bucket = Inr (projr (convertShopifyProduct bucket))" by simp
  have v: "\<not> truthy (opt_get bucket ''vendor'')" by code_simp
  have t: "\<not> truthy (opt_get bucket ''product_type'')" by code_simp
  have n: "no_images bucket" by code_simp
  show ?thesis using default_substitution [OF h v t n] h v t n by simp
qed

section \<open>The product upsert\<close>

lemma castField_not_number:
  "f \<notin> set (number_paths m) \<Longrightarrow> castField m (f, x) = Inr (f, x)"
  by (cases x) (simp_all add: castField_def)

lemma handleProductUpdate_Inr:
  assumes "handleProductUpdate t s product = Inr s'"
  obtains r key coll w where
    "log_id product = Inr (projr (log_id product))"
    "convertShopifyProduct product = Inr r"
    "toString_call (opt_get product ''id'') = Inr key"
    "field_of r ''shopifyId'' = Some (Str key)"
    "castUpdate Product (vals r) = Inr w"
    "map_of w ''shopifyId'' = Some (Val (Str key))"
    "findOneAndUpdate Product ''shopifyId'' (Str key) (vals r) True t (products s) = Inr coll"
    "s' = s\<lparr>products := coll\<rparr>"
proof -
  from assms obtain logged r pid key coll where
    l: "log_id product = Inr logged" and r: "convertShopifyProduct product = Inr r"
    and pid: "js_get product ''id'' = Inr pid" and key: "toString_call pid = Inr key"
    and coll: "findOneAndUpdate Product ''shopifyId'' (Str key) (vals r) True t (products s) = Inr coll"
    and s': "s' = s\<lparr>products := coll\<rparr>"
    by (auto simp: handleProductUpdate_def andThen_eq_Inr)
  have nn: "\<not> nullish product" using r by (rule convertShopifyProduct_not_nullish)
  have pid': "pid = opt_get product ''id''" using pid js_get_not_nullish [OF nn] by simp
  from convertShopifyProduct_fields(1) [OF r] key pid'
  have k: "toString_call (opt_get product ''id'') = Inr key" "field_of r ''shopifyId'' = Some (Str key)"
    by auto
  from coll obtain w where w: "castUpdate Product (vals r) = Inr w"
    by (auto simp: findOneAndUpdate_def andThen_eq_Inr)
  have "map_of (vals r) ''shopifyId'' = Some (Val (Str key))"
    using k(2) by (simp add: map_of_vals field_of_def)
  from castUpdate_lookup [OF w this] obtain x' where
    x: "castField Product (''shopifyId'', Val (Str key)) = Inr (''shopifyId'', x')" "map_of w ''shopifyId'' = Some x'"
    by auto
  have "castField Product (''shopifyId'', Val (Str key)) = Inr (''shopifyId'', Val (Str key))"
    by (rule castField_not_number) (simp add: Product_def)
  with x have wk: "map_of w ''shopifyId'' = Some (Val (Str key))" by simp
  from l have "log_id product = Inr (projr (log_id product))" by simp
  then show thesis using r k w wk coll s' that by blast
qed




section \<open>Stock consistency\<close>

lemma findOneAndUpdate_written:
  assumes "findOneAndUpdate m k v upd True t coll = Inr c'" and w: "castUpdate m upd = Inr w"
  shows "\<exists>d. d ++ map_of (stamped m t w) \<in> set c'
             \<and> (map_of w k = Some (Val v) \<longrightarrow> k \<noteq> ''updatedAt''
                  \<longrightarrow> matches k v (d ++ map_of (stamped m t w)))"
    and "\<forall>d'\<in>set c'. d' \<in> set coll \<or> (\<exists>d. d' = d ++ map_of (stamped m t w))"
proof -
  let ?M = "map_of (stamped m t w)"
  let ?P = "matches k v"
  have m: "\<And>d. map_of w k = Some (Val v) \<Longrightarrow> k \<noteq> ''updatedAt'' \<Longrightarrow> ?P (d ++ ?M)"
    by (simp add: matches_def map_add_def map_of_stamped_other)
  have "(\<exists>d. d ++ ?M \<in> set c') \<and> (\<forall>d'\<in>set c'. d' \<in> set coll \<or> (\<exists>d. d' = d ++ ?M))"
  proof (cases "update_first ?P (\<lambda>d. d ++ ?M) coll")
    case (Some c)
    with assms have c: "c' = c" by (simp add: findOneAndUpdate_def)
    from update_first_writes [OF Some] have "\<exists>d. d ++ ?M \<in> set c'"
      unfolding c by blast
    moreover have "\<forall>d'\<in>set c'. d' \<in> set coll \<or> (\<exists>d. d' = d ++ ?M)"
      using update_first_members [OF Some] unfolding c by blast
    ultimately show ?thesis by simp
  next
    case None
    define base where "base = map_of ([(k, Val v)] @ (if timestamps m then [(''createdAt'', Date t)] else []))"
    from None assms have "c' = coll @ [map_of (stamped m t w @ [(k, Val v)] @ (if timestamps m then [(''createdAt'', Date t)] else []))]"
      by (auto simp: findOneAndUpdate_def)
    then have c: "c' = coll @ [base ++ ?M]"
      by (simp only: map_of_append base_def)
    have "base ++ ?M \<in> set c'" unfolding c by simp
    then have "\<exists>d. d ++ ?M \<in> set c'" by (rule exI [of _ base])
    moreover have "\<forall>d'\<in>set c'. d' \<in> set coll \<or> (\<exists>d. d' = d ++ ?M)"
    proof
      fix d' assume "d' \<in> set c'"
      then have "d' \<in> set coll \<or> d' = base ++ ?M" unfolding c by auto
      then show "d' \<in> set coll \<or> (\<exists>d. d' = d ++ ?M)" by (auto intro: exI [of _ base])
    qed
    ultimately show ?thesis by simp
  qed
  then obtain d where d: "d ++ ?M \<in> set c'"
    and all: "\<forall>d'\<in>set c'. d' \<in> set coll \<or> (\<exists>d. d' = d ++ ?M)"
    by blast
  have "map_of w k = Some (Val v) \<longrightarrow> k \<noteq> ''updatedAt'' \<longrightarrow> ?P (d ++ ?M)"
    using m by blast
  with d show "\<exists>d. d ++ ?M \<in> set c' \<and> (map_of w k = Some (Val v) \<longrightarrow> k \<noteq> ''updatedAt'' \<longrightarrow> ?P (d ++ ?M))"
    by (intro exI [of _ d] conjI)
  from all show "\<forall>d'\<in>set c'. d' \<in> set coll \<or> (\<exists>d. d' = d ++ ?M)" .
qed

lemma stock_consistent_written:
  assumes "map_of w ''inStock'' = Some (Val (Bool b))"
      and "map_of w ''stockQuantity'' = Some (Val q)"
      and "js_gt_num q (Fin 0) = Inr b"
  shows "stock_consistent (d ++ map_of (stamped m t w))"
  using assms by (simp add: stock_consistent_def map_add_def map_of_stamped_other)

lemma product_update_stock:
  assumes r: "convertShopifyProduct product = Inr r" and w: "castUpdate Product (vals r) = Inr w"
  shows "\<exists>b q. map_of w ''inStock'' = Some (Val (Bool b)) \<and> map_of w ''stockQuantity'' = Some (Val q)
               \<and> js_gt_num q (Fin 0) = Inr b"
proof -
  let ?iq = "opt_get (mainVariant_of product) ''inventory_quantity''"
  from convertShopifyProduct_fields(8) [OF r] obtain b where
    b: "js_gt_num ?iq (Fin 0) = Inr b" "field_of r ''inStock'' = Some (Bool b)" by blast
  have sq: "field_of r ''stockQuantity'' = Some (js_or ?iq (Num (Fin 0)))"
    by (rule convertShopifyProduct_fields(9) [OF r])
  have "map_of (vals r) ''inStock'' = Some (Val (Bool b))"
    using b(2) by (simp add: map_of_vals field_of_def)
  from castUpdate_lookup [OF w this] obtain x where
    x: "castField Product (''inStock'', Val (Bool b)) = Inr (''inStock'', x)" "map_of w ''inStock'' = Some x"
    by auto
  have "castField Product (''inStock'', Val (Bool b)) = Inr (''inStock'', Val (Bool b))"
    by (rule castField_not_number) (simp add: Product_def)
  with x have i: "map_of w ''inStock'' = Some (Val (Bool b))" by simp
  have "map_of (vals r) ''stockQuantity'' = Some (Val (js_or ?iq (Num (Fin 0))))"
    using sq by (simp add: map_of_vals field_of_def)
  from castUpdate_lookup [OF w this] js_or_zero_defined obtain y where
    y: "castField Product (''stockQuantity'', Val (js_or ?iq (Num (Fin 0)))) = Inr (''stockQuantity'', y)"
       "map_of w ''stockQuantity'' = Some y"
    by auto
  from castField_gt [OF y(1), of "Fin 0"] obtain q where
    q: "y = Val q" "js_gt_num q (Fin 0) = js_gt_num (js_or ?iq (Num (Fin 0))) (Fin 0)" by blast
  have "js_gt_num q (Fin 0) = Inr b"
    using q(2) js_gt_num_or_zero [OF b(1)] by simp
  with i y(2) q(1) show ?thesis by blast
qed

lemma convertItemToProduct_not_nullish:
  "convertItemToProduct now item = Inr r \<Longrightarrow> \<not> nullish item"
  by (cases "nullish item") (simp_all add: convertItemToProduct_def js_get_nullish)

lemma convertItemToProduct_stock:
  assumes "convertItemToProduct now item = Inr r"
  shows "\<exists>n. map_of r ''inStock'' = Some (Val (Bool (jsnum_gt n (Fin 0))))
             \<and> map_of r ''stockQuantity'' = Some (Val (Num n))"
proof -
  have nn: "\<not> nullish item" using assms by (rule convertItemToProduct_not_nullish)
  note a = assms [unfolded convertItemToProduct_def Let_def,
      simplified js_get_not_nullish [OF nn] andThen_Inr]
  show ?thesis
    using a by (auto simp: andThen_eq_Inr vals_def)
qed

lemma item_update_stock:
  assumes r: "convertItemToProduct now item = Inr r" and w: "castUpdate m r = Inr w"
      and m: "''inStock'' \<notin> set (number_paths m)"
  shows "\<exists>b q. map_of w ''inStock'' = Some (Val (Bool b)) \<and> map_of w ''stockQuantity'' = Some (Val q)
               \<and> js_gt_num q (Fin 0) = Inr b"
proof -
  from convertItemToProduct_stock [OF r] obtain n where
    n: "map_of r ''inStock'' = Some (Val (Bool (jsnum_gt n (Fin 0))))"
       "map_of r ''stockQuantity'' = Some (Val (Num n))" by blast
  from castUpdate_lookup [OF w n(1)] obtain x where
    x: "castField m (''inStock'', Val (Bool (jsnum_gt n (Fin 0)))) = Inr (''inStock'', x)"
       "map_of w ''inStock'' = Some x"
    by auto
  from x(1) castField_not_number [OF m] have x': "x = Val (Bool (jsnum_gt n (Fin 0)))" by simp
  from castUpdate_lookup [OF w n(2)] obtain y where
    y: "castField m (''stockQuantity'', Val (Num n)) = Inr (''stockQuantity'', y)"
       "map_of w ''stockQuantity'' = Some y"
    by auto
  from castField_gt [OF y(1), of "Fin 0"] obtain q where
    q: "y = Val q" "js_gt_num q (Fin 0) = js_gt_num (Num n) (Fin 0)" by blast
  have "js_gt_num q (Fin 0) = Inr (jsnum_gt n (Fin 0))"
    using q(2) by (simp add: js_gt_num_def)
  with x(2) x' y(2) q(1) show ?thesis by blast
qed

text \<open>
  Claim C4. After every product upsert that succeeds, by the Shopify handler or by the
  Lightspeed handler, the record it wrote is in the store and satisfies
  \<^verbatim>\<open>inStock == (stockQuantity > 0)\<close>, and every other record of the collection is as it
  was before: each record of the collection is an earlier one or satisfies the invariant.
  For Shopify the record written is the one found under the external identifier of the
  payload. The Lightspeed model is any model whose path \<^verbatim>\<open>inStock\<close> is not of type
  \<^verbatim>\<open>Number\<close>.
\<close>

theorem stock_consistency:
  "(handleProductUpdate now s product = Inr s' \<longrightarrow>
      (\<exists>d\<in>set (products s'). stock_consistent d
          \<and> (\<exists>key. toString_call (opt_get product ''id'') = Inr key \<and> matches ''shopifyId'' (Str key) d))
      \<and> (\<forall>d\<in>set (products s'). d \<in> set (products s) \<or> stock_consistent d))
   \<and> (''inStock'' \<notin> set (number_paths m) \<longrightarrow>
      handleItemUpdate getItemById m now s itemId = Inr s'' \<longrightarrow>
      (\<exists>d\<in>set (products s''). stock_consistent d)
      \<and> (\<forall>d\<in>set (products s''). d \<in> set (products s) \<or> stock_consistent d))"
proof (intro conjI impI)
  assume a: "handleProductUpdate now s product = Inr s'"
  from a obtain r key coll w where
    r: "convertShopifyProduct product = Inr r"
    and key: "toString_call (opt_get product ''id'') = Inr key"
    and w: "castUpdate Product (vals r) = Inr w"
    and wk: "map_of w ''shopifyId'' = Some (Val (Str key))"
    and coll: "findOneAndUpdate Product ''shopifyId'' (Str key) (vals r) True now (products s) = Inr coll"
    and s': "s' = s\<lparr>products := coll\<rparr>"
    by (rule handleProductUpdate_Inr)
  from product_update_stock [OF r w] obtain b q where
    st: "map_of w ''inStock'' = Some (Val (Bool b))" "map_of w ''stockQuantity'' = Some (Val q)"
        "js_gt_num q (Fin 0) = Inr b"
    by blast
  have cons: "\<And>d. stock_consistent (d ++ map_of (stamped Product now w))"
    using st by (rule stock_consistent_written)
  from findOneAndUpdate_written(1) [OF coll w] wk obtain d where
    d: "d ++ map_of (stamped Product now w) \<in> set coll"
       "matches ''shopifyId'' (Str key) (d ++ map_of (stamped Product now w))"
    by auto
  show "\<exists>d\<in>set (products s'). stock_consistent d
          \<and> (\<exists>key. toString_call (opt_get product ''id'') = Inr key \<and> matches ''shopifyId'' (Str key) d)"
    using d cons key unfolding s' by auto
  show "\<forall>d\<in>set (products s'). d \<in> set (products s) \<or> stock_consistent d"
    using findOneAndUpdate_written(2) [OF coll w] cons unfolding s' by auto
next
  assume m: "''inStock'' \<notin> set (number_paths m)"
    and a: "handleItemUpdate getItemById m now s itemId = Inr s''"
  from a obtain item r coll where
    r: "convertItemToProduct now item = Inr r"
    and coll: "findOneAndUpdate m ''lightspeedId'' itemId r True now (products s) = Inr coll"
    and s'': "s'' = s\<lparr>products := coll\<rparr>"
    by (auto simp: handleItemUpdate_def andThen_eq_Inr)
  from coll obtain w where w: "castUpdate m r = Inr w"
    by (auto simp: findOneAndUpdate_def andThen_eq_Inr)
  from item_update_stock [OF r w m] obtain b q where
    st: "map_of w ''inStock'' = Some (Val (Bool b))" "map_of w ''stockQuantity'' = Some (Val q)"
        "js_gt_num q (Fin 0) = Inr b"
    by blast
  have cons: "\<And>d. stock_consistent (d ++ map_of (stamped m now w))"
    using st by (rule stock_consistent_written)
  from findOneAndUpdate_written(1) [OF coll w] obtain d where
    d: "d ++ map_of (stamped m now w) \<in> set coll"
    by auto
  show "\<exists>d\<in>set (products s''). stock_consistent d"
    using d cons unfolding s'' by auto
  show "\<forall>d\<in>set (products s''). d \<in> set (products s) \<or> stock_consistent d"
    using findOneAndUpdate_written(2) [OF coll w] cons unfolding s'' by auto
qed

text \<open>The Shopify payload \<open>mop\<close> and the Lightspeed item \<open>vacuum\<close>, upserted into the empty store.\<close>

theorem stock_consistency_witness:
  "handleProductUpdate 0 empty_store mop = Inr (projr (handleProductUpdate 0 empty_store mop))
   \<and> (\<exists>d\<in>set (products (projr (handleProductUpdate 0 empty_store mop))). stock_consistent d)
   \<and> ''inStock'' \<notin> set (number_paths Product)
   \<and> handleItemUpdate fetch_vacuum Product 0 empty_store (Str ''9'')
       = Inr (projr (handleItemUpdate fetch_vacuum Product 0 empty_store (Str ''9'')))
   \<and> (\<exists>d\<in>set (products (projr (handleItemUpdate fetch_vacuum Product 0 empty_store (Str ''9'')))).
         stock_consistent d)"
proof -
  have "\<not> isl (handleProductUpdate 0 empty_store mop)" by code_simp
  then have h1: "handleProductUpdate 0 empty_store mop = Inr (projr (handleProductUpdate 0 empty_store mop))"
    by simp
  have m: "''inStock'' \<notin> set (number_paths Product)" by (simp add: Product_def)
  have "\<not> isl (handleItemUpdate fetch_vacuum Product 0 empty_store (Str ''9''))" by code_simp
  then have h2: "handleItemUpdate fetch_vacuum Product 0 empty_store (Str ''9'')
       = Inr (projr (handleItemUpdate fetch_vacuum Product 0 empty_store (Str ''9'')))"
    by simp
  from stock_consistency [of 0 empty_store mop "projr (handleProductUpdate 0 empty_store mop)"
      Product fetch_vacuum "Str ''9''" "projr (handleItemUpdate fetch_vacuum Product 0 empty_store (Str ''9''))"]
    h1 h2 m
  show ?thesis by blast
qed

section \<open>The bulk synchronisation\<close>










text \<open>
  The hypothesis that the rejected item throws in translation or upsert, and not in the log
  line before them, is needed: the \<^verbatim>\<open>catch\<close> of the loop logs the identifier of the product
  again, and on an item that is \<^verbatim>\<open>null\<close> this throws in turn and ends the run with status
  500 after the first product.
\<close>

lemma null_item_ends_run:
  "status (fst (sync_products sample_runtime seconds (batch [mop, Null, bucket]) empty_store)) = 500
   \<and> length (products (snd (sync_products sample_runtime seconds (batch [mop, Null, bucket])
                             empty_store))) = 1"
  by code_simp

section \<open>The cancellation of an order\<close>













section \<open>Verification of the signature\<close>

text \<open>
  The digest of the body itself is accepted, and the digest of another body is accepted
  exactly when the two digests are equal. That no two bodies differing in one byte have the
  same HMAC-SHA256 is a property of the digest, not of this code.
\<close>

lemma verifyWebhook_genuine:
  "secret_of e = Some secret \<Longrightarrow>
   verifyWebhook rt e text (Some (hmac_sha256_base64 rt secret text)) = Inr True"
  by (simp add: verifyWebhook_def)

lemma verifyWebhook_other_body:
  "secret_of e = Some secret \<Longrightarrow>
   verifyWebhook rt e text' (Some (hmac_sha256_base64 rt secret text))
     = Inr (hmac_sha256_base64 rt secret text' = hmac_sha256_base64 rt secret text)"
  by (simp add: verifyWebhook_def)



text \<open>
  Claim C10. When neither \<^verbatim>\<open>SHOPIFY_WEBHOOK_SECRET\<close> nor \<^verbatim>\<open>SHOPIFY_API_SECRET\<close> is set,
  \<^verbatim>\<open>verifyWebhook\<close> throws for every body and every header instead of returning
  \<^verbatim>\<open>false\<close>, and the endpoint responds 500, not 401, to every request, leaving the store
  unchanged.
\<close>

theorem missing_secret_fails:
  assumes "SHOPIFY_WEBHOOK_SECRET e = None" and "SHOPIFY_API_SECRET e = None"
  shows "verifyWebhook rt e text hmacHeader = Inl TypeError
       \<and> webhook_endpoint rt e now s req = (failure rt TypeError, s)
       \<and> status (fst (webhook_endpoint rt e now s req)) = 500"
  using assms by (simp add: webhook_endpoint_def verifyWebhook_def secret_of_def failure_def)

text \<open>An environment without secrets.\<close>

theorem missing_secret_fails_witness:
  "SHOPIFY_WEBHOOK_SECRET \<lparr>SHOPIFY_WEBHOOK_SECRET = None, SHOPIFY_API_SECRET = None\<rparr> = None
   \<and> SHOPIFY_API_SECRET \<lparr>SHOPIFY_WEBHOOK_SECRET = None, SHOPIFY_API_SECRET = None\<rparr> = None
   \<and> verifyWebhook sample_runtime \<lparr>SHOPIFY_WEBHOOK_SECRET = None, SHOPIFY_API_SECRET = None\<rparr>
        ''{}'' (Some ''forged'') = Inl TypeError
   \<and> status (fst (webhook_endpoint sample_runtime
        \<lparr>SHOPIFY_WEBHOOK_SECRET = None, SHOPIFY_API_SECRET = None\<rparr> 0 empty_store
        \<lparr>hmac_header = Some ''forged'', topic_header = Some ''products/update'',
          shop_header = None, rawBody = ''{}''\<rparr>)) = 500"
proof -
  have a: "SHOPIFY_WEBHOOK_SECRET \<lparr>SHOPIFY_WEBHOOK_SECRET = None, SHOPIFY_API_SECRET = None\<rparr> = None"
    and b: "SHOPIFY_API_SECRET \<lparr>SHOPIFY_WEBHOOK_SECRET = None, SHOPIFY_API_SECRET = None\<rparr> = None"
    by simp_all
  from missing_secret_fails [OF a b, of sample_runtime "''{}''" "Some ''forged''" 0 empty_store
      "\<lparr>hmac_header = Some ''forged'', topic_header = Some ''products/update'',
        shop_header = None, rawBody = ''{}''\<rparr>"] a b
  show ?thesis by (simp add: failure_def)
qed

text \<open>
  The end-to-end scenario: a signed event \<^verbatim>\<open>products/update\<close> for the product \<open>mop\<close> is
  answered with 200 and \<^verbatim>\<open>{success: true}\<close>, and the store then has the product 123 with
  the price and the stock of the payload.
\<close>

lemma signed_event_is_stored:
  "fst (webhook_endpoint mop_runtime mop_env 0 empty_store mop_request)
     = \<lparr>status = 200, body = Obj [(''success'', Bool True)]\<rparr>
   \<and> product_field (snd (webhook_endpoint mop_runtime mop_env 0 empty_store mop_request))
        ''123'' ''price'' = Some (Val (Num (Fin (999 / 100))))
   \<and> product_field (snd (webhook_endpoint mop_runtime mop_env 0 empty_store mop_request))
        ''123'' ''stockQuantity'' = Some (Val (Num (Fin 5)))"
  by code_simp

end
